theory Spec2Isabelle
  imports Main "HOL-Library.Sublist"
begin

section \<open>Python values\<close>

text \<open>
  The program is one Python function, \<open>get_gbif_occurrences\<close> (src/app.py, lines 8-40),
  and the top-level script that calls it. The function builds a dictionary of query
  parameters, sends one HTTP GET, decodes the body as JSON and turns the entries of its
  \<open>results\<close> list into rows of a table.

  A number is an \<open>int\<close> (unbounded) or a \<open>float\<close>. The program never computes with a
  float: it only formats floats and copies them. A float is therefore represented by its
  \<open>repr\<close>, the decimal text that \<open>str\<close> and an f-string produce for it (\<open>20.0\<close> is
  \<open>NFloat ''20.0''\<close>).
\<close>

datatype number = NInt int | NFloat string

text \<open>
  What \<open>response.json()\<close> returns, and what a parameter dictionary holds. A dictionary
  keeps its insertion order, which iteration observes, so it is an association list; the
  keys of a decoded JSON object are strings.
\<close>

datatype pyval =
    PNone
  | PBool bool
  | PNum number
  | PStr string
  | PList "pyval list"
  | PDict "(string \<times> pyval) list"

text \<open>The exceptions the modelled code can raise, and the faults of the outside world.\<close>

datatype error =
    IndexError
  | KeyError
  | AttributeError
  | TypeError
  | RequestException
  | JSONDecodeError
  | StreamlitAPIException

section \<open>Formatting\<close>

text \<open>\<open>str\<close> of a non-negative integer: its decimal digits, most significant first.\<close>

fun str_nat :: "nat \<Rightarrow> string" where
  "str_nat n =
     (if n < 10 then [''0123456789'' ! n]
      else str_nat (n div 10) @ [''0123456789'' ! (n mod 10)])"

declare str_nat.simps [simp del]

definition str_int :: "int \<Rightarrow> string" where
  "str_int i = (if i < 0 then CHR ''-'' # str_nat (nat (- i)) else str_nat (nat i))"

text \<open>What a replacement field \<open>{x}\<close> of an f-string yields for a number \<open>x\<close>.\<close>

fun py_str :: "number \<Rightarrow> string" where
  "py_str (NInt i) = str_int i"
| "py_str (NFloat r) = r"

section \<open>The query builder (lines 9-23)\<close>

text \<open>
  \<open>year_range\<close> and \<open>bbox\<close> are \<open>None\<close> or a tuple of numbers; a tuple is a list.
  \<open>t[i]\<close> raises \<open>IndexError\<close> past the end, and \<open>if t:\<close> holds for a tuple that
  is not empty.
\<close>

definition tuple_item :: "'a list \<Rightarrow> nat \<Rightarrow> error + 'a" where
  "tuple_item t i = (if i < length t then Inr (t ! i) else Inl IndexError)"

type_synonym params = "string \<rightharpoonup> pyval"

definition url :: string where
  "url = ''https://api.gbif.org/v1/occurrence/search''"

text \<open>Lines 17-18: \<open>if year_range: params["year"] = f"{year_range[0]},{year_range[1]}"\<close>.\<close>

fun year_filter :: "number list option \<Rightarrow> params \<Rightarrow> error + params" where
  "year_filter None params = Inr params"
| "year_filter (Some year_range) params =
     (if year_range = [] then Inr params
      else case tuple_item year_range 0 of Inl e \<Rightarrow> Inl e | Inr y0 \<Rightarrow>
           case tuple_item year_range 1 of Inl e \<Rightarrow> Inl e | Inr y1 \<Rightarrow>
           Inr (params(''year'' \<mapsto> PStr (py_str y0 @ '','' @ py_str y1))))"

text \<open>Lines 21-23: the two bounding-box parameters.\<close>

fun bbox_filter :: "number list option \<Rightarrow> params \<Rightarrow> error + params" where
  "bbox_filter None params = Inr params"
| "bbox_filter (Some bbox) params =
     (if bbox = [] then Inr params
      else case tuple_item bbox 0 of Inl e \<Rightarrow> Inl e | Inr b0 \<Rightarrow>
           case tuple_item bbox 1 of Inl e \<Rightarrow> Inl e | Inr b1 \<Rightarrow>
           case tuple_item bbox 2 of Inl e \<Rightarrow> Inl e | Inr b2 \<Rightarrow>
           case tuple_item bbox 3 of Inl e \<Rightarrow> Inl e | Inr b3 \<Rightarrow>
           Inr (params(''decimalLatitude'' \<mapsto> PStr (py_str b0 @ '','' @ py_str b1),
                       ''decimalLongitude'' \<mapsto> PStr (py_str b2 @ '','' @ py_str b3))))"

text \<open>Lines 10-23: the parameter dictionary handed to \<open>requests.get\<close>.\<close>

definition query_params ::
  "string \<Rightarrow> int \<Rightarrow> number list option \<Rightarrow> number list option \<Rightarrow> error + params" where
  "query_params species_name limit year_range bbox =
     (case year_filter year_range
             [''scientificName'' \<mapsto> PStr species_name,
              ''limit'' \<mapsto> PNum (NInt limit),
              ''hasCoordinate'' \<mapsto> PStr ''true''] of
        Inl e \<Rightarrow> Inl e
      | Inr params \<Rightarrow> bbox_filter bbox params)"

section \<open>The response flattener (lines 28-40)\<close>

text \<open>
  \<open>key in obj\<close> for a string key: membership of the key in a dictionary, of the string
  among the elements of a list, substring of a string; a \<open>TypeError\<close> on anything else.
\<close>

fun py_in :: "string \<Rightarrow> pyval \<Rightarrow> error + bool" where
  "py_in k (PDict kvs) = Inr (map_of kvs k \<noteq> None)"
| "py_in k (PList xs) = Inr (PStr k \<in> set xs)"
| "py_in k (PStr s) = Inr (sublist k s)"
| "py_in k _ = Inl TypeError"

text \<open>\<open>obj.get(key, default)\<close>: only a dictionary has the method.\<close>

fun py_get :: "pyval \<Rightarrow> string \<Rightarrow> pyval \<Rightarrow> error + pyval" where
  "py_get (PDict kvs) k d = Inr (case map_of kvs k of None \<Rightarrow> d | Some v \<Rightarrow> v)"
| "py_get _ k d = Inl AttributeError"

text \<open>\<open>obj[key]\<close> for a string key.\<close>

fun py_getitem :: "pyval \<Rightarrow> string \<Rightarrow> error + pyval" where
  "py_getitem (PDict kvs) k = (case map_of kvs k of None \<Rightarrow> Inl KeyError | Some v \<Rightarrow> Inr v)"
| "py_getitem _ k = Inl TypeError"

text \<open>
  What a \<open>for\<close> loop walks: the elements of a list, the keys of a dictionary, the
  characters of a string (here one \<open>char\<close> each; a character outside ASCII is several,
  each still a string too short to contain a key). Nothing else can be iterated.
\<close>

fun py_iter :: "pyval \<Rightarrow> error + pyval list" where
  "py_iter (PList xs) = Inr xs"
| "py_iter (PDict kvs) = Inr (map (\<lambda>kv. PStr (fst kv)) kvs)"
| "py_iter (PStr s) = Inr (map (\<lambda>c. PStr [c]) s)"
| "py_iter _ = Inl TypeError"

text \<open>One row of the table: the dictionary literal of lines 31-38, whose keys are fixed.\<close>

record row =
  species :: pyval
  lat :: pyval
  lon :: pyval
  country :: pyval
  date :: pyval
  basisOfRecord :: pyval

text \<open>Line 30: \<open>"decimalLatitude" in result and "decimalLongitude" in result\<close>.\<close>

definition has_coordinates :: "pyval \<Rightarrow> error + bool" where
  "has_coordinates result =
     (case py_in ''decimalLatitude'' result of
        Inl e \<Rightarrow> Inl e
      | Inr False \<Rightarrow> Inr False
      | Inr True \<Rightarrow> py_in ''decimalLongitude'' result)"

text \<open>Lines 31-38, the fields evaluated in the order they are written.\<close>

definition make_record :: "pyval \<Rightarrow> error + row" where
  "make_record result =
     (case py_get result ''scientificName'' PNone of Inl e \<Rightarrow> Inl e | Inr sp \<Rightarrow>
      case py_getitem result ''decimalLatitude'' of Inl e \<Rightarrow> Inl e | Inr la \<Rightarrow>
      case py_getitem result ''decimalLongitude'' of Inl e \<Rightarrow> Inl e | Inr lo \<Rightarrow>
      case py_get result ''country'' PNone of Inl e \<Rightarrow> Inl e | Inr co \<Rightarrow>
      case py_get result ''eventDate'' PNone of Inl e \<Rightarrow> Inl e | Inr da \<Rightarrow>
      case py_get result ''basisOfRecord'' PNone of Inl e \<Rightarrow> Inl e | Inr ba \<Rightarrow>
      Inr \<lparr>species = sp, lat = la, lon = lo, country = co, date = da,
           basisOfRecord = ba\<rparr>)"

text \<open>The loop of lines 29-38; \<open>records\<close> is the list built so far.\<close>

fun collect :: "pyval list \<Rightarrow> row list \<Rightarrow> error + row list" where
  "collect [] records = Inr records"
| "collect (result # rest) records =
     (case has_coordinates result of
        Inl e \<Rightarrow> Inl e
      | Inr False \<Rightarrow> collect rest records
      | Inr True \<Rightarrow>
          (case make_record result of
             Inl e \<Rightarrow> Inl e
           | Inr r \<Rightarrow> collect rest (records @ [r])))"

text \<open>
  Lines 28-40 on the decoded body \<open>data\<close>. The table \<open>pd.DataFrame(records)\<close> is
  represented by the list of rows it is built from, one table row per list element.
\<close>

definition result_items :: "pyval \<Rightarrow> error + pyval list" where
  "result_items data =
     (case py_get data ''results'' (PList []) of Inl e \<Rightarrow> Inl e | Inr results \<Rightarrow>
      py_iter results)"

definition flatten_response :: "pyval \<Rightarrow> error + row list" where
  "flatten_response data =
     (case result_items data of Inl e \<Rightarrow> Inl e | Inr items \<Rightarrow> collect items [])"

section \<open>The whole function and the script around it\<close>

text \<open>
  The outside world is two parameters: \<open>requests_get\<close> (line 25), which returns a
  response or raises, and \<open>response_json\<close> (line 26), which decodes a response body or
  raises. The function catches no exception: an error of any step is the result.
\<close>

definition get_gbif_occurrences ::
  "(string \<Rightarrow> params \<Rightarrow> error + 'r) \<Rightarrow> ('r \<Rightarrow> error + pyval) \<Rightarrow>
   string \<Rightarrow> int \<Rightarrow> number list option \<Rightarrow> number list option \<Rightarrow> error + row list" where
  "get_gbif_occurrences requests_get response_json species_name limit year_range bbox =
     (case query_params species_name limit year_range bbox of Inl e \<Rightarrow> Inl e | Inr params \<Rightarrow>
      case requests_get url params of Inl e \<Rightarrow> Inl e | Inr response \<Rightarrow>
      case response_json response of Inl e \<Rightarrow> Inl e | Inr data \<Rightarrow>
      flatten_response data)"

text \<open>
  A reply of the server, as far as the program can see it: its status code, which the
  program never reads, and what \<open>response.json()\<close> gives for its body, the decoded
  object or the exception of the decoder.
\<close>

record reply =
  status_code :: nat
  json_body :: "error + pyval"

text \<open>
  The script, lines 64-105. It shows a warning for an empty table (\<open>df.empty\<close>) and a
  success message otherwise, and then draws three tabs. The calls into the dashboard and
  table libraries that are given data are parameters, each of which may raise:
  \<open>st.map\<close> on the two coordinate columns (line 78), \<open>st.dataframe\<close> on the first
  fifty rows (line 82), \<open>df.to_csv\<close> (line 83), \<open>st.download_button\<close> (lines 84-89),
  the counting and charting of the \<open>country\<close> column (lines 95-98) and the dating and
  charting of the \<open>date\<close> column (lines 101-105). The calls given constants only
  (\<open>st.tabs\<close>, \<open>st.subheader\<close>, \<open>st.caption\<close>, \<open>st.write\<close>) are left out.
\<close>

record ui =
  st_map :: "(pyval \<times> pyval) list \<Rightarrow> error + unit"
  st_dataframe :: "row list \<Rightarrow> error + unit"
  to_csv :: "row list \<Rightarrow> error + string"
  st_download_button :: "string \<Rightarrow> string \<Rightarrow> string \<Rightarrow> string \<Rightarrow> error + unit"
  country_chart :: "pyval list \<Rightarrow> error + unit"
  year_chart :: "pyval list \<Rightarrow> error + unit"

datatype message = Warning string | Success string

definition warning_text :: string where
  "warning_text =
     [CHR 0xE2, CHR 0x9A, CHR 0xA0, CHR 0xEF, CHR 0xB8, CHR 0x8F]
     @ '' No records found. Try changing filters or species name.''"

definition success_text :: "nat \<Rightarrow> string \<Rightarrow> string" where
  "success_text n species_name =
     [CHR 0xE2, CHR 0x9C, CHR 0x85]
     @ '' Found '' @ str_nat n @ '' records for **'' @ species_name @ ''**''"

definition download_label :: string where
  "download_label =
     [CHR 0xF0, CHR 0x9F, CHR 0x92, CHR 0xBE] @ '' Download full dataset as CSV''"

text \<open>Line 87: \<open>f"{species_name.replace(' ', '_')}_occurrences.csv"\<close>.\<close>

definition download_name :: "string \<Rightarrow> string" where
  "download_name species_name =
     map (\<lambda>c. if c = CHR '' '' then CHR ''_'' else c) species_name @ ''_occurrences.csv''"

text \<open>Lines 73-105: the three tabs in order; the first call that raises ends the script.\<close>

definition render_tabs :: "ui \<Rightarrow> string \<Rightarrow> row list \<Rightarrow> error option" where
  "render_tabs widgets species_name df =
     (case st_map widgets (map (\<lambda>r. (lat r, lon r)) df) of Inl e \<Rightarrow> Some e | Inr _ \<Rightarrow>
      case st_dataframe widgets (take 50 df) of Inl e \<Rightarrow> Some e | Inr _ \<Rightarrow>
      case to_csv widgets df of Inl e \<Rightarrow> Some e | Inr csv \<Rightarrow>
      case st_download_button widgets download_label csv (download_name species_name)
             ''text/csv'' of Inl e \<Rightarrow> Some e | Inr _ \<Rightarrow>
      case country_chart widgets (map country df) of Inl e \<Rightarrow> Some e | Inr _ \<Rightarrow>
      case year_chart widgets (map date df) of Inl e \<Rightarrow> Some e | Inr _ \<Rightarrow>
      None)"

text \<open>
  What a run of the script leaves: the messages shown, and the exception that ended it,
  if one did.
\<close>

record outcome =
  shown :: "message list"
  fault :: "error option"

definition run_query ::
  "(string \<Rightarrow> params \<Rightarrow> error + 'r) \<Rightarrow> ('r \<Rightarrow> error + pyval) \<Rightarrow> ui \<Rightarrow>
   string \<Rightarrow> int \<Rightarrow> number list option \<Rightarrow> number list option \<Rightarrow> outcome" where
  "run_query requests_get response_json widgets species_name limit year_range bbox =
     (if species_name \<noteq> [] then
        case get_gbif_occurrences requests_get response_json species_name limit year_range bbox of
          Inl e \<Rightarrow> \<lparr>shown = [], fault = Some e\<rparr>
        | Inr df \<Rightarrow>
            if df = [] then \<lparr>shown = [Warning warning_text], fault = None\<rparr>
            else \<lparr>shown = [Success (success_text (length df) species_name)],
                  fault = render_tabs widgets species_name df\<rparr>
      else \<lparr>shown = [], fault = None\<rparr>)"

section \<open>Vocabulary of the specification\<close>

text \<open>
  A filter argument as the script passes it: \<open>None\<close>, or a tuple of the right length
  (a year range is a pair, a bounding box has four entries).
\<close>

fun is_year_range :: "number list option \<Rightarrow> bool" where
  "is_year_range None = True"
| "is_year_range (Some t) = (length t = 2)"

fun is_bbox :: "number list option \<Rightarrow> bool" where
  "is_bbox None = True"
| "is_bbox (Some t) = (length t = 4)"

text \<open>Reading decimal digits back, to state that \<open>str_nat\<close> writes the number.\<close>

definition digit_value :: "char \<Rightarrow> nat" where
  "digit_value c = of_char c - 48"

definition nat_of_digits :: "string \<Rightarrow> nat" where
  "nat_of_digits s = foldl (\<lambda>a c. 10 * a + digit_value c) 0 s"

text \<open>A result record is a JSON object; it carries coordinates when it has both keys.\<close>

fun is_dict :: "pyval \<Rightarrow> bool" where
  "is_dict (PDict kvs) = True"
| "is_dict _ = False"

fun has_both_keys :: "pyval \<Rightarrow> bool" where
  "has_both_keys (PDict kvs) =
     (map_of kvs ''decimalLatitude'' \<noteq> None \<and> map_of kvs ''decimalLongitude'' \<noteq> None)"
| "has_both_keys _ = False"

text \<open>A row carries a coordinate when the entry is not \<open>None\<close>.\<close>

fun is_null :: "pyval \<Rightarrow> bool" where
  "is_null PNone = True"
| "is_null _ = False"

definition carries_both :: "row \<Rightarrow> bool" where
  "carries_both rw = (\<not> is_null (lat rw) \<and> \<not> is_null (lon rw))"

text \<open>A field of a record: what it holds under the key, \<open>None\<close> when the key is absent.\<close>

definition lookup :: "(string \<times> pyval) list \<Rightarrow> string \<Rightarrow> pyval" where
  "lookup kvs k = (case map_of kvs k of None \<Rightarrow> PNone | Some v \<Rightarrow> v)"

text \<open>
  The projection of the six consumed fields, as the specification words it. It is
  compared below with \<open>make_record\<close>, which is the code.
\<close>

fun projection :: "pyval \<Rightarrow> row" where
  "projection (PDict kvs) =
     \<lparr>species = lookup kvs ''scientificName'',
      lat = lookup kvs ''decimalLatitude'',
      lon = lookup kvs ''decimalLongitude'',
      country = lookup kvs ''country'',
      date = lookup kvs ''eventDate'',
      basisOfRecord = lookup kvs ''basisOfRecord''\<rparr>"
| "projection _ =
     \<lparr>species = PNone, lat = PNone, lon = PNone, country = PNone, date = PNone,
      basisOfRecord = PNone\<rparr>"

section \<open>Sample data\<close>

text \<open>Three result records: a complete one, one without a longitude, one with null coordinates.\<close>

definition monarch_mexico :: pyval where
  "monarch_mexico = PDict
     [(''scientificName'', PStr ''Danaus plexippus (Linnaeus, 1758)''),
      (''decimalLatitude'', PNum (NFloat ''19.5'')),
      (''decimalLongitude'', PNum (NFloat ''-100.25'')),
      (''country'', PStr ''Mexico''),
      (''eventDate'', PStr ''2015-02-14''),
      (''basisOfRecord'', PStr ''HUMAN_OBSERVATION'')]"

definition monarch_no_longitude :: pyval where
  "monarch_no_longitude = PDict
     [(''scientificName'', PStr ''Danaus plexippus (Linnaeus, 1758)''),
      (''decimalLatitude'', PNum (NFloat ''40.1'')),
      (''country'', PStr ''United States of America'')]"

definition null_fields :: "(string \<times> pyval) list" where
  "null_fields =
     [(''scientificName'', PStr ''Danaus plexippus (Linnaeus, 1758)''),
      (''decimalLatitude'', PNone),
      (''decimalLongitude'', PNone),
      (''basisOfRecord'', PStr ''PRESERVED_SPECIMEN'')]"

definition monarch_null_coordinates :: pyval where
  "monarch_null_coordinates = PDict null_fields"

definition monarch_mexico_row :: row where
  "monarch_mexico_row =
     \<lparr>species = PStr ''Danaus plexippus (Linnaeus, 1758)'',
      lat = PNum (NFloat ''19.5''),
      lon = PNum (NFloat ''-100.25''),
      country = PStr ''Mexico'',
      date = PStr ''2015-02-14'',
      basisOfRecord = PStr ''HUMAN_OBSERVATION''\<rparr>"

definition monarch_null_row :: row where
  "monarch_null_row =
     \<lparr>species = PStr ''Danaus plexippus (Linnaeus, 1758)'',
      lat = PNone,
      lon = PNone,
      country = PNone,
      date = PNone,
      basisOfRecord = PStr ''PRESERVED_SPECIMEN''\<rparr>"

definition body_of :: "pyval list \<Rightarrow> pyval" where
  "body_of results = PDict [(''offset'', PNum (NInt 0)), (''results'', PList results)]"

definition monarch_params :: params where
  "monarch_params =
     [''scientificName'' \<mapsto> PStr ''Danaus plexippus'',
      ''limit'' \<mapsto> PNum (NInt 500),
      ''hasCoordinate'' \<mapsto> PStr ''true'']"

text \<open>
  Four servers: one that cannot be reached, one whose body does not decode, one that
  answers with status 500 and a JSON object, and one that answers with the given results.
\<close>

definition unreachable_server :: "string \<Rightarrow> params \<Rightarrow> error + reply" where
  "unreachable_server u q = Inl RequestException"

definition garbled_reply :: reply where
  "garbled_reply = \<lparr>status_code = 200, json_body = Inl JSONDecodeError\<rparr>"

definition garbled_server :: "string \<Rightarrow> params \<Rightarrow> error + reply" where
  "garbled_server u q = Inr garbled_reply"

definition error_reply :: reply where
  "error_reply =
     \<lparr>status_code = 500,
      json_body = Inr (PDict [(''message'', PStr ''Internal Server Error'')])\<rparr>"

definition error_status_server :: "string \<Rightarrow> params \<Rightarrow> error + reply" where
  "error_status_server u q = Inr error_reply"

definition server_of :: "pyval list \<Rightarrow> string \<Rightarrow> params \<Rightarrow> error + reply" where
  "server_of results u q = Inr \<lparr>status_code = 200, json_body = Inr (body_of results)\<rparr>"

text \<open>
  Two sets of widgets: one on which no call raises, and one whose map refuses a null
  coordinate.
\<close>

definition quiet_widgets :: ui where
  "quiet_widgets =
     \<lparr>st_map = (\<lambda>cs. Inr ()),
      st_dataframe = (\<lambda>rows. Inr ()),
      to_csv = (\<lambda>rows. Inr []),
      st_download_button = (\<lambda>label csv name mime. Inr ()),
      country_chart = (\<lambda>cs. Inr ()),
      year_chart = (\<lambda>ds. Inr ())\<rparr>"

definition strict_widgets :: ui where
  "strict_widgets =
     quiet_widgets
       \<lparr>st_map := (\<lambda>cs. if list_ex (\<lambda>c. is_null (fst c) \<or> is_null (snd c)) cs
                         then Inl StreamlitAPIException else Inr ())\<rparr>"

section \<open>Properties of the query builder\<close>

lemma str_2000: "str_int 2000 = ''2000''"
  by code_simp

lemma str_2020: "str_int 2020 = ''2020''"
  by code_simp

lemma digit_nth: "d < 10 \<Longrightarrow> digit_value (''0123456789'' ! d) = d"
proof -
  assume "d < 10"
  then consider "d = 0" | "d = 1" | "d = 2" | "d = 3" | "d = 4" | "d = 5" | "d = 6" | "d = 7"
    | "d = 8" | "d = 9"
    by atomize_elim arith
  then show ?thesis
    by cases (simp_all add: digit_value_def)
qed

lemma nat_of_digits_snoc: "nat_of_digits (s @ [c]) = 10 * nat_of_digits s + digit_value c"
  by (simp add: nat_of_digits_def)

text \<open>The digits written for a number are its decimal notation.\<close>

lemma str_nat_value: "nat_of_digits (str_nat n) = n"
proof (induction n rule: str_nat.induct)
  case (1 n)
  show ?case
  proof (cases "n < 10")
    case True
    then show ?thesis
      by (subst str_nat.simps) (simp add: nat_of_digits_def digit_nth)
  next
    case False
    with 1 have "nat_of_digits (str_nat (n div 10)) = n div 10" by simp
    with False show ?thesis
      by (subst str_nat.simps) (simp add: nat_of_digits_snoc digit_nth)
  qed
qed

text \<open>The parameters built are the ones the request is made with (line 25).\<close>

lemma get_gbif_occurrences_sends:
  "query_params species_name limit year_range bbox = Inr p \<Longrightarrow>
     get_gbif_occurrences requests_get response_json species_name limit year_range bbox =
       (case requests_get url p of Inl e \<Rightarrow> Inl e | Inr response \<Rightarrow>
        case response_json response of Inl e \<Rightarrow> Inl e | Inr data \<Rightarrow>
        flatten_response data)"
  by (simp add: get_gbif_occurrences_def)

lemma length_2: "length t = 2 \<longleftrightarrow> (\<exists>a b. t = [a, b])"
  by (auto simp: length_Suc_conv eval_nat_numeral)

lemma length_4: "length t = 4 \<longleftrightarrow> (\<exists>a b c d. t = [a, b, c, d])"
  by (auto simp: length_Suc_conv eval_nat_numeral)

text \<open>
  Claim C4. For species "Danaus plexippus", year range (2000, 2020) and no bounding box,
  the parameters built hold \<open>year = "2000,2020"\<close> and neither \<open>decimalLatitude\<close> nor
  \<open>decimalLongitude\<close>, whatever the limit is.
\<close>

theorem danaus_params:
  "\<exists>p. query_params ''Danaus plexippus'' limit (Some [NInt 2000, NInt 2020]) None = Inr p
     \<and> p ''year'' = Some (PStr ''2000,2020'')
     \<and> p ''decimalLatitude'' = None
     \<and> p ''decimalLongitude'' = None"
  by (simp add: query_params_def tuple_item_def str_2000 str_2020)

theorem danaus_params_witness:
  "\<exists>p. query_params ''Danaus plexippus'' 500 (Some [NInt 2000, NInt 2020]) None = Inr p
     \<and> p ''year'' = Some (PStr ''2000,2020'')
     \<and> p ''decimalLatitude'' = None
     \<and> p ''decimalLongitude'' = None"
  using danaus_params [of 500] by simp

text \<open>
  Claim C1. For every species name and every filter set (each filter \<open>None\<close> or a tuple
  of the right length), the parameters are built, they hold the species name unchanged
  under \<open>scientificName\<close>, and for a year range \<open>(s, e)\<close> they hold under \<open>year\<close> the
  text of \<open>s\<close>, a comma, and the text of \<open>e\<close>.
\<close>

theorem species_and_year_params:
  assumes "is_year_range year_range" and "is_bbox bbox"
  shows "\<exists>p. query_params species_name limit year_range bbox = Inr p
     \<and> p ''scientificName'' = Some (PStr species_name)
     \<and> (\<forall>s e. year_range = Some [s, e] \<longrightarrow>
            p ''year'' = Some (PStr (py_str s @ '','' @ py_str e)))"
  using assms
  by (cases year_range; cases bbox) (auto simp: query_params_def tuple_item_def length_2 length_4)

theorem species_and_year_params_witness:
  "is_year_range (Some [NInt 1990, NInt 2005]) \<and> is_bbox None
   \<and> (\<exists>p. query_params ''Panthera leo'' 300 (Some [NInt 1990, NInt 2005]) None = Inr p
        \<and> p ''scientificName'' = Some (PStr ''Panthera leo'')
        \<and> p ''year'' = Some (PStr ''1990,2005''))"
proof -
  have "str_int 1990 = ''1990''" and "str_int 2005 = ''2005''"
    by code_simp+
  then show ?thesis
    using species_and_year_params [of "Some [NInt 1990, NInt 2005]" None "''Panthera leo''" 300]
    by auto
qed

text \<open>
  Claim C5. For every call with well-shaped filters, the parameters hold the scientific
  name, the limit and \<open>hasCoordinate = "true"\<close>; \<open>year\<close> is present exactly when a
  year range is given, \<open>decimalLatitude\<close> and \<open>decimalLongitude\<close> exactly when a
  bounding box is given; and there is no other parameter.
\<close>

theorem params_present_iff_supplied:
  assumes "is_year_range year_range" and "is_bbox bbox"
  shows "\<exists>p. query_params species_name limit year_range bbox = Inr p
     \<and> p ''scientificName'' = Some (PStr species_name)
     \<and> p ''limit'' = Some (PNum (NInt limit))
     \<and> p ''hasCoordinate'' = Some (PStr ''true'')
     \<and> (p ''year'' \<noteq> None \<longleftrightarrow> year_range \<noteq> None)
     \<and> (p ''decimalLatitude'' \<noteq> None \<longleftrightarrow> bbox \<noteq> None)
     \<and> (p ''decimalLongitude'' \<noteq> None \<longleftrightarrow> bbox \<noteq> None)
     \<and> dom p \<subseteq> {''scientificName'', ''limit'', ''hasCoordinate'', ''year'',
                  ''decimalLatitude'', ''decimalLongitude''}"
  using assms
  by (cases year_range; cases bbox) (auto simp: query_params_def tuple_item_def length_2 length_4)

theorem params_present_iff_supplied_witness:
  "is_year_range (Some [NInt 2000, NInt 2020])
   \<and> is_bbox (Some [NFloat ''20.0'', NFloat ''50.0'', NFloat ''-130.0'', NFloat ''-60.0''])
   \<and> (\<exists>p. query_params ''Danaus plexippus'' 500 (Some [NInt 2000, NInt 2020])
              (Some [NFloat ''20.0'', NFloat ''50.0'', NFloat ''-130.0'', NFloat ''-60.0''])
            = Inr p
        \<and> p ''scientificName'' = Some (PStr ''Danaus plexippus'')
        \<and> p ''limit'' = Some (PNum (NInt 500))
        \<and> p ''hasCoordinate'' = Some (PStr ''true'')
        \<and> p ''year'' \<noteq> None
        \<and> p ''decimalLatitude'' \<noteq> None
        \<and> p ''decimalLongitude'' \<noteq> None)"
  using params_present_iff_supplied
          [of "Some [NInt 2000, NInt 2020]"
              "Some [NFloat ''20.0'', NFloat ''50.0'', NFloat ''-130.0'', NFloat ''-60.0'']"
              "''Danaus plexippus''" 500]
  by auto

text \<open>
  Claim C8. For every bounding box \<open>(lat_min, lat_max, lon_min, lon_max)\<close> the
  parameters hold \<open>decimalLatitude = "lat_min,lat_max"\<close> and
  \<open>decimalLongitude = "lon_min,lon_max"\<close>. Nothing is assumed of the four numbers: the
  code compares none of them, and a box whose minimum exceeds its maximum is formatted
  like any other.
\<close>

theorem bbox_params:
  assumes "is_year_range year_range"
  shows "\<exists>p. query_params species_name limit year_range
                (Some [lat_min, lat_max, lon_min, lon_max]) = Inr p
     \<and> p ''decimalLatitude'' = Some (PStr (py_str lat_min @ '','' @ py_str lat_max))
     \<and> p ''decimalLongitude'' = Some (PStr (py_str lon_min @ '','' @ py_str lon_max))"
  using assms
  by (cases year_range) (auto simp: query_params_def tuple_item_def length_2)

theorem bbox_params_witness:
  "is_year_range None
   \<and> (\<exists>p. query_params ''Danaus plexippus'' 500 None
              (Some [NFloat ''50.0'', NFloat ''20.0'', NFloat ''-60.0'', NFloat ''-130.0''])
            = Inr p
        \<and> p ''decimalLatitude'' = Some (PStr ''50.0,20.0'')
        \<and> p ''decimalLongitude'' = Some (PStr ''-60.0,-130.0''))"
  using bbox_params [of None "''Danaus plexippus''" 500 "NFloat ''50.0''" "NFloat ''20.0''"
                        "NFloat ''-60.0''" "NFloat ''-130.0''"]
  by auto

section \<open>Properties of the response flattener\<close>

subsection \<open>The code against the projection\<close>

lemma lookup_absent: "map_of kvs k = None \<Longrightarrow> lookup kvs k = PNone"
  by (simp add: lookup_def)


lemma has_both_keys_dict: "has_both_keys r \<Longrightarrow> is_dict r"
  by (cases r) simp_all

lemma has_coordinates_dict: "has_coordinates (PDict kvs) = Inr (has_both_keys (PDict kvs))"
  by (auto simp: has_coordinates_def split: bool.splits)

lemma make_record_dict:
  "has_both_keys (PDict kvs) \<Longrightarrow> make_record (PDict kvs) = Inr (projection (PDict kvs))"
  by (auto simp: make_record_def lookup_def)

lemma has_coordinates_False: "has_coordinates r = Inr False \<Longrightarrow> \<not> has_both_keys r"
  by (cases r) (simp_all add: has_coordinates_dict)

text \<open>
  An entry that passes the test of line 30 and for which lines 31-38 do not raise is a
  dictionary with both keys: on a list or a string, \<open>result.get\<close> raises.
\<close>

lemma included_is_dict:
  assumes "has_coordinates r = Inr True" and "make_record r = Inr rw"
  shows "has_both_keys r \<and> rw = projection r"
proof (cases r)
  case (PDict kvs)
  with assms show ?thesis
    by (simp add: has_coordinates_dict make_record_dict)
qed (use assms in \<open>simp_all add: make_record_def\<close>)

text \<open>The loop, when it returns, has appended the projections of the entries with both keys.\<close>

lemma collect_Inr:
  "collect items recs = Inr out \<Longrightarrow>
     out = recs @ map projection (filter has_both_keys items)"
proof (induction items arbitrary: recs)
  case Nil
  then show ?case by simp
next
  case (Cons r rest)
  show ?case
  proof (cases "has_coordinates r")
    case (Inl e)
    with Cons.prems show ?thesis by simp
  next
    case (Inr b)
    show ?thesis
    proof (cases b)
      case False
      with Inr Cons show ?thesis
        by (simp add: has_coordinates_False)
    next
      case True
      with Inr Cons.prems obtain rw where rw: "make_record r = Inr rw"
        and rest: "collect rest (recs @ [rw]) = Inr out"
        by (auto split: sum.splits)
      from True Inr have "has_coordinates r = Inr True" by simp
      from included_is_dict [OF this rw] Cons.IH [OF rest] show ?thesis by simp
    qed
  qed
qed

text \<open>On a list of dictionaries the loop returns.\<close>

lemma collect_dicts:
  "\<forall>r \<in> set items. is_dict r \<Longrightarrow>
     collect items recs = Inr (recs @ map projection (filter has_both_keys items))"
proof (induction items arbitrary: recs)
  case Nil
  then show ?case by simp
next
  case (Cons r rest)
  then obtain kvs where r: "r = PDict kvs" by (cases r) auto
  from Cons have IH:
    "\<And>recs. collect rest recs = Inr (recs @ map projection (filter has_both_keys rest))"
    by simp
  show ?case
  proof (cases "has_both_keys (PDict kvs)")
    case True
    then show ?thesis
      unfolding r
      by (simp add: IH has_coordinates_dict make_record_dict
               del: has_both_keys.simps projection.simps)
  next
    case False
    then show ?thesis
      unfolding r by (simp add: IH has_coordinates_dict del: has_both_keys.simps)
  qed
qed

lemma flatten_Inr:
  "flatten_response data = Inr rows \<Longrightarrow>
     \<exists>items. result_items data = Inr items
        \<and> rows = map projection (filter has_both_keys items)"
  by (auto simp: flatten_response_def split: sum.splits dest: collect_Inr)

lemma flatten_dicts:
  "result_items data = Inr items \<Longrightarrow> \<forall>r \<in> set items. is_dict r \<Longrightarrow>
     flatten_response data = Inr (map projection (filter has_both_keys items))"
  by (simp add: flatten_response_def collect_dicts)

lemma result_items_list:
  "map_of body ''results'' = Some (PList rs) \<Longrightarrow> result_items (PDict body) = Inr rs"
  by (simp add: result_items_def)

lemma result_items_body_of: "result_items (body_of rs) = Inr rs"
  by (simp add: result_items_def body_of_def)

text \<open>Each kept entry, paired with its row.\<close>

lemma kept_rows:
  "list_all2 (\<lambda>r rw. has_both_keys r \<and> rw = projection r)
     (filter has_both_keys items) (map projection (filter has_both_keys items))"
  by (induction items) simp_all

lemma sample_rows:
  "projection monarch_mexico = monarch_mexico_row"
  "projection monarch_null_coordinates = monarch_null_row"
  "has_both_keys monarch_mexico"
  "\<not> has_both_keys monarch_no_longitude"
  "has_both_keys monarch_null_coordinates"
  "is_dict monarch_mexico"
  "is_dict monarch_no_longitude"
  "is_dict monarch_null_coordinates"
  by (simp_all add: monarch_mexico_def monarch_mexico_row_def monarch_no_longitude_def
        monarch_null_coordinates_def null_fields_def monarch_null_row_def lookup_def)

subsection \<open>The claims\<close>

text \<open>
  Claim C2, as amended. The claim as written also asks that every included row carry a
  latitude and a longitude; the code tests the presence of the two keys only (line 30),
  so a record that holds null under both is included (the counterexample follows the
  witness). What holds: for every decoded body on which the flattener returns a table, the
  rows are, one for one and in order, the entries of the results that are records with
  both a \<open>decimalLatitude\<close> and a \<open>decimalLongitude\<close> key, so that an entry lacking
  either key has no row; and each row holds under \<open>lat\<close> and \<open>lon\<close> what its
  record has under the two keys, which may be null. In particular, a results list of two
  records, one with both keys and the other without \<open>decimalLongitude\<close> (in either
  order), gives a table of exactly one row.
\<close>

theorem rows_carry_coordinates:
  "(flatten_response data = Inr rows \<longrightarrow>
      (\<exists>items. result_items data = Inr items \<and>
         list_all2
           (\<lambda>r rw. \<exists>kvs. r = PDict kvs
              \<and> map_of kvs ''decimalLatitude'' = Some (lat rw)
              \<and> map_of kvs ''decimalLongitude'' = Some (lon rw))
           (filter has_both_keys items) rows))
   \<and> (map_of body ''results'' = Some (PList [x, y])
        \<and> (has_both_keys x \<and> is_dict y \<and> py_in ''decimalLongitude'' y = Inr False
            \<or> has_both_keys y \<and> is_dict x \<and> py_in ''decimalLongitude'' x = Inr False) \<longrightarrow>
      (\<exists>rw. flatten_response (PDict body) = Inr [rw]))"
proof (intro conjI impI)
  assume "flatten_response data = Inr rows"
  then obtain items where items: "result_items data = Inr items"
    and rows: "rows = map projection (filter has_both_keys items)"
    using flatten_Inr by blast
  have "list_all2
           (\<lambda>r rw. \<exists>kvs. r = PDict kvs
              \<and> map_of kvs ''decimalLatitude'' = Some (lat rw)
              \<and> map_of kvs ''decimalLongitude'' = Some (lon rw))
           (filter has_both_keys items) rows"
    unfolding rows
  proof (rule list_all2_mono [OF kept_rows])
    fix r rw
    assume "has_both_keys r \<and> rw = projection r"
    then show "\<exists>kvs. r = PDict kvs
              \<and> map_of kvs ''decimalLatitude'' = Some (lat rw)
              \<and> map_of kvs ''decimalLongitude'' = Some (lon rw)"
      by (cases r) (auto simp: lookup_def)
  qed
  with items show "\<exists>items. result_items data = Inr items \<and>
         list_all2
           (\<lambda>r rw. \<exists>kvs. r = PDict kvs
              \<and> map_of kvs ''decimalLatitude'' = Some (lat rw)
              \<and> map_of kvs ''decimalLongitude'' = Some (lon rw))
           (filter has_both_keys items) rows"
    by blast
next
  assume a: "map_of body ''results'' = Some (PList [x, y])
        \<and> (has_both_keys x \<and> is_dict y \<and> py_in ''decimalLongitude'' y = Inr False
            \<or> has_both_keys y \<and> is_dict x \<and> py_in ''decimalLongitude'' x = Inr False)"
  then have items: "result_items (PDict body) = Inr [x, y]"
    by (simp add: result_items_list)
  have miss: "is_dict r \<Longrightarrow> py_in ''decimalLongitude'' r = Inr False \<Longrightarrow> \<not> has_both_keys r"
    for r
    by (cases r) auto
  from a have "\<forall>r \<in> set [x, y]. is_dict r"
    using has_both_keys_dict by auto
  from flatten_dicts [OF items this] a miss
  show "\<exists>rw. flatten_response (PDict body) = Inr [rw]"
    by auto
qed

theorem rows_carry_coordinates_witness:
  "flatten_response (PDict [(''results'', PList [monarch_mexico, monarch_no_longitude])])
     = Inr [monarch_mexico_row]
   \<and> has_both_keys monarch_mexico
   \<and> is_dict monarch_no_longitude
   \<and> py_in ''decimalLongitude'' monarch_no_longitude = Inr False
   \<and> map_of [(''results'', PList [monarch_mexico, monarch_no_longitude])] ''results''
       = Some (PList [monarch_mexico, monarch_no_longitude])
   \<and> lat monarch_mexico_row = PNum (NFloat ''19.5'')
   \<and> lon monarch_mexico_row = PNum (NFloat ''-100.25'')"
proof -
  let ?body = "[(''results'', PList [monarch_mexico, monarch_no_longitude])]"
  have hyp: "map_of ?body ''results'' = Some (PList [monarch_mexico, monarch_no_longitude])"
    by simp
  have miss: "py_in ''decimalLongitude'' monarch_no_longitude = Inr False"
    by (simp add: monarch_no_longitude_def)
  have items: "result_items (PDict ?body) = Inr [monarch_mexico, monarch_no_longitude]"
    by (simp add: result_items_def)
  from rows_carry_coordinates
         [of "PDict ?body" "[monarch_mexico_row]" ?body monarch_mexico monarch_no_longitude]
    hyp miss sample_rows
  obtain rw where rw: "flatten_response (PDict ?body) = Inr [rw]"
    by auto
  from flatten_Inr [OF rw] items sample_rows have "rw = monarch_mexico_row"
    by simp
  with rw hyp miss sample_rows show ?thesis
    by (simp add: monarch_mexico_row_def)
qed

text \<open>
  Claim C2 as written fails: on a results list whose one record holds null under both
  keys, the table returned has a row, and that row carries neither coordinate.
\<close>

theorem row_without_coordinates:
  "flatten_response (body_of [monarch_null_coordinates]) = Inr [monarch_null_row]
   \<and> \<not> carries_both monarch_null_row"
proof -
  have "flatten_response (body_of [monarch_null_coordinates]) = Inr [monarch_null_row]"
    using flatten_dicts [OF result_items_body_of, of "[monarch_null_coordinates]"]
    by (simp add: sample_rows)
  then show ?thesis
    by (simp add: carries_both_def monarch_null_row_def)
qed



text \<open>
  Claim C9. The test of line 30 is on the presence of the keys only. A record whose
  \<open>decimalLatitude\<close> and \<open>decimalLongitude\<close> keys are present and hold null passes
  it; whenever the flattener returns a table, the row of that record is in it, with
  \<open>None\<close> as latitude and as longitude; and the flattener does return a table when
  every entry of the results is a record.
\<close>

theorem null_coordinates_kept:
  assumes "result_items data = Inr items"
    and "PDict kvs \<in> set items"
    and "map_of kvs ''decimalLatitude'' = Some PNone"
    and "map_of kvs ''decimalLongitude'' = Some PNone"
  shows "has_coordinates (PDict kvs) = Inr True
     \<and> (\<forall>rows. flatten_response data = Inr rows \<longrightarrow>
           projection (PDict kvs) \<in> set rows)
     \<and> lat (projection (PDict kvs)) = PNone
     \<and> lon (projection (PDict kvs)) = PNone
     \<and> ((\<forall>r \<in> set items. is_dict r) \<longrightarrow> (\<exists>rows. flatten_response data = Inr rows))"
proof (intro conjI allI impI)
  from assms(3,4) show "has_coordinates (PDict kvs) = Inr True"
    by (simp add: has_coordinates_dict)
next
  fix rows
  assume "flatten_response data = Inr rows"
  with flatten_Inr assms(1) have "rows = map projection (filter has_both_keys items)"
    by fastforce
  moreover from assms(3,4) have "has_both_keys (PDict kvs)"
    by simp
  ultimately show "projection (PDict kvs) \<in> set rows"
    using assms(2) by (simp del: has_both_keys.simps projection.simps)
next
  from assms(3) show "lat (projection (PDict kvs)) = PNone"
    by (simp add: lookup_def)
next
  from assms(4) show "lon (projection (PDict kvs)) = PNone"
    by (simp add: lookup_def)
next
  assume "\<forall>r \<in> set items. is_dict r"
  from flatten_dicts [OF assms(1) this] show "\<exists>rows. flatten_response data = Inr rows"
    by blast
qed

theorem null_coordinates_kept_witness:
  "result_items (body_of [monarch_null_coordinates, monarch_mexico])
     = Inr [monarch_null_coordinates, monarch_mexico]
   \<and> PDict null_fields \<in> set [monarch_null_coordinates, monarch_mexico]
   \<and> map_of null_fields ''decimalLatitude'' = Some PNone
   \<and> map_of null_fields ''decimalLongitude'' = Some PNone
   \<and> has_coordinates (PDict null_fields) = Inr True
   \<and> flatten_response (body_of [monarch_null_coordinates, monarch_mexico])
       = Inr [monarch_null_row, monarch_mexico_row]
   \<and> projection (PDict null_fields) \<in> set [monarch_null_row, monarch_mexico_row]
   \<and> lat (projection (PDict null_fields)) = PNone
   \<and> lon (projection (PDict null_fields)) = PNone"
proof -
  have items: "result_items (body_of [monarch_null_coordinates, monarch_mexico])
                 = Inr [monarch_null_coordinates, monarch_mexico]"
    by (rule result_items_body_of)
  have mem: "PDict null_fields \<in> set [monarch_null_coordinates, monarch_mexico]"
    by (simp add: monarch_null_coordinates_def)
  have la: "map_of null_fields ''decimalLatitude'' = Some PNone"
    and lo: "map_of null_fields ''decimalLongitude'' = Some PNone"
    by (simp_all add: null_fields_def)
  have h: "flatten_response (body_of [monarch_null_coordinates, monarch_mexico])
             = Inr [monarch_null_row, monarch_mexico_row]"
    using flatten_dicts [OF items] by (simp add: sample_rows)
  have pn: "projection (PDict null_fields) = monarch_null_row"
    using sample_rows(2) by (simp only: monarch_null_coordinates_def)
  from null_coordinates_kept [OF items mem la lo] items mem la lo h show ?thesis
    by (simp add: pn monarch_null_row_def del: projection.simps)
qed

text \<open>
  Claim C10. The flattener is an order-preserving filter-map over the results: whenever
  it returns a table, the rows are the projections of the entries that have both keys,
  taken in the order of the results (the kept entries are a subsequence of the results),
  so there are at most as many rows as entries; on results that are all records it does
  return that table; and the entries walked are the results list itself when the body
  holds a list under \<open>results\<close>.
\<close>

theorem flatten_is_filter_map:
  "(result_items data = Inr items \<and> flatten_response data = Inr rows \<longrightarrow>
       rows = map projection (filter has_both_keys items)
       \<and> subseq (filter has_both_keys items) items
       \<and> length rows \<le> length items)
   \<and> (result_items data = Inr items \<and> (\<forall>r \<in> set items. is_dict r) \<longrightarrow>
       flatten_response data = Inr (map projection (filter has_both_keys items)))
   \<and> (map_of body ''results'' = Some (PList rs) \<longrightarrow> result_items (PDict body) = Inr rs)"
proof (intro conjI impI)
  assume a: "result_items data = Inr items \<and> flatten_response data = Inr rows"
  with flatten_Inr show rows: "rows = map projection (filter has_both_keys items)"
    by fastforce
  show "subseq (filter has_both_keys items) items"
    by simp
  from rows show "length rows \<le> length items"
    by simp
next
  assume "result_items data = Inr items \<and> (\<forall>r \<in> set items. is_dict r)"
  then show "flatten_response data = Inr (map projection (filter has_both_keys items))"
    by (simp add: flatten_dicts)
next
  assume "map_of body ''results'' = Some (PList rs)"
  then show "result_items (PDict body) = Inr rs"
    by (rule result_items_list)
qed

theorem flatten_is_filter_map_witness:
  "map_of [(''results'', PList [monarch_no_longitude, monarch_mexico, monarch_null_coordinates])]
      ''results''
     = Some (PList [monarch_no_longitude, monarch_mexico, monarch_null_coordinates])
   \<and> result_items
       (PDict [(''results'', PList [monarch_no_longitude, monarch_mexico, monarch_null_coordinates])])
     = Inr [monarch_no_longitude, monarch_mexico, monarch_null_coordinates]
   \<and> is_dict monarch_no_longitude \<and> is_dict monarch_mexico \<and> is_dict monarch_null_coordinates
   \<and> flatten_response
       (PDict [(''results'', PList [monarch_no_longitude, monarch_mexico, monarch_null_coordinates])])
     = Inr [monarch_mexico_row, monarch_null_row]
   \<and> [monarch_mexico_row, monarch_null_row]
     = map projection
         (filter has_both_keys [monarch_no_longitude, monarch_mexico, monarch_null_coordinates])
   \<and> subseq (filter has_both_keys [monarch_no_longitude, monarch_mexico, monarch_null_coordinates])
        [monarch_no_longitude, monarch_mexico, monarch_null_coordinates]
   \<and> length [monarch_mexico_row, monarch_null_row]
     \<le> length [monarch_no_longitude, monarch_mexico, monarch_null_coordinates]"
proof -
  let ?rs = "[monarch_no_longitude, monarch_mexico, monarch_null_coordinates]"
  let ?body = "[(''results'', PList ?rs)]"
  have body: "map_of ?body ''results'' = Some (PList ?rs)"
    by simp
  have dicts: "\<forall>r \<in> set ?rs. is_dict r"
    by (simp add: sample_rows)
  note fm = flatten_is_filter_map
              [of "PDict ?body" ?rs "[monarch_mexico_row, monarch_null_row]" ?body ?rs]
  from fm body have items: "result_items (PDict ?body) = Inr ?rs"
    by blast
  with fm dicts
  have h: "flatten_response (PDict ?body) = Inr [monarch_mexico_row, monarch_null_row]"
    by (simp add: sample_rows)
  with fm items body show ?thesis
    by (simp add: sample_rows)
qed

section \<open>Faults\<close>

lemma get_gbif_occurrences_Inr:
  "get_gbif_occurrences requests_get response_json species_name limit year_range bbox = Inr rows
   \<longleftrightarrow> (\<exists>p response data.
          query_params species_name limit year_range bbox = Inr p
        \<and> requests_get url p = Inr response
        \<and> response_json response = Inr data
        \<and> flatten_response data = Inr rows)"
  by (auto simp: get_gbif_occurrences_def split: sum.splits)

lemma status_not_read:
  "get_gbif_occurrences (\<lambda>u q. map_sum id (\<lambda>r. r\<lparr>status_code := s\<rparr>) (server u q)) json_body
     species_name limit year_range bbox
   = get_gbif_occurrences server json_body species_name limit year_range bbox"
  by (auto simp: get_gbif_occurrences_def split: sum.splits)

lemma sample_params: "query_params ''Danaus plexippus'' 500 None None = Inr monarch_params"
  by (simp add: query_params_def monarch_params_def)

lemma sample_tables:
  "flatten_response (body_of [monarch_no_longitude]) = Inr []"
  "flatten_response (body_of [monarch_null_coordinates]) = Inr [monarch_null_row]"
  "flatten_response (PDict [(''message'', PStr ''Internal Server Error'')]) = Inr []"
proof -
  show "flatten_response (body_of [monarch_no_longitude]) = Inr []"
    using flatten_dicts [OF result_items_body_of, of "[monarch_no_longitude]"]
    by (simp add: sample_rows)
  show "flatten_response (body_of [monarch_null_coordinates]) = Inr [monarch_null_row]"
    using flatten_dicts [OF result_items_body_of, of "[monarch_null_coordinates]"]
    by (simp add: sample_rows)
  show "flatten_response (PDict [(''message'', PStr ''Internal Server Error'')]) = Inr []"
    by (simp add: flatten_response_def result_items_def)
qed

text \<open>
  Claim C7, as amended. The claim as written has every failed HTTP call end the function
  with a fault; the code never reads the status of the reply, so a reply with an error
  status whose body decodes to a JSON object gives a table (the counterexample follows
  the witness). What holds: the function catches no exception.
  When the parameters are built and \<open>requests.get\<close> raises, the function ends with that
  exception; when the call returns and decoding the body raises, the function ends with
  that exception; a table is returned exactly when the parameters are built, the call
  returns, the body decodes and the flattener returns; and the status of the reply makes
  no difference. The script catches no exception either: it ends with a fault exactly when
  the query raises, or the table is not empty and drawing the tabs raises. The one
  failure that the script itself reports is the warning, shown exactly when the query
  returns an empty table, and then the script ends without a fault.
\<close>

theorem raised_faults_propagate:
  "(query_params species_name limit year_range bbox = Inr p
      \<and> requests_get url p = Inl e \<longrightarrow>
    get_gbif_occurrences requests_get response_json species_name limit year_range bbox = Inl e)
   \<and> (query_params species_name limit year_range bbox = Inr p
      \<and> requests_get url p = Inr response \<and> response_json response = Inl e \<longrightarrow>
    get_gbif_occurrences requests_get response_json species_name limit year_range bbox = Inl e)
   \<and> (get_gbif_occurrences requests_get response_json species_name limit year_range bbox
        = Inr rows
      \<longleftrightarrow> (\<exists>p response data.
             query_params species_name limit year_range bbox = Inr p
           \<and> requests_get url p = Inr response
           \<and> response_json response = Inr data
           \<and> flatten_response data = Inr rows))
   \<and> get_gbif_occurrences (\<lambda>u q. map_sum id (\<lambda>r. r\<lparr>status_code := s\<rparr>) (server u q))
          json_body species_name limit year_range bbox
       = get_gbif_occurrences server json_body species_name limit year_range bbox
   \<and> (fault (run_query requests_get response_json widgets species_name limit year_range bbox)
        = Some e
      \<longleftrightarrow> species_name \<noteq> []
        \<and> (get_gbif_occurrences requests_get response_json species_name limit year_range bbox
              = Inl e
           \<or> (\<exists>df. get_gbif_occurrences requests_get response_json species_name limit
                       year_range bbox = Inr df
                  \<and> df \<noteq> [] \<and> render_tabs widgets species_name df = Some e)))
   \<and> (Warning w
        \<in> set (shown (run_query requests_get response_json widgets species_name limit
                         year_range bbox))
      \<longleftrightarrow> species_name \<noteq> [] \<and> w = warning_text
        \<and> get_gbif_occurrences requests_get response_json species_name limit year_range bbox
            = Inr [])
   \<and> (species_name \<noteq> []
        \<and> get_gbif_occurrences requests_get response_json species_name limit year_range bbox
            = Inr [] \<longrightarrow>
      run_query requests_get response_json widgets species_name limit year_range bbox
        = \<lparr>shown = [Warning warning_text], fault = None\<rparr>)"
proof (intro conjI)
  show "query_params species_name limit year_range bbox = Inr p
      \<and> requests_get url p = Inl e \<longrightarrow>
    get_gbif_occurrences requests_get response_json species_name limit year_range bbox = Inl e"
    by (simp add: get_gbif_occurrences_def)
  show "query_params species_name limit year_range bbox = Inr p
      \<and> requests_get url p = Inr response \<and> response_json response = Inl e \<longrightarrow>
    get_gbif_occurrences requests_get response_json species_name limit year_range bbox = Inl e"
    by (simp add: get_gbif_occurrences_def)
  show "get_gbif_occurrences requests_get response_json species_name limit year_range bbox
        = Inr rows
      \<longleftrightarrow> (\<exists>p response data.
             query_params species_name limit year_range bbox = Inr p
           \<and> requests_get url p = Inr response
           \<and> response_json response = Inr data
           \<and> flatten_response data = Inr rows)"
    by (rule get_gbif_occurrences_Inr)
  show "get_gbif_occurrences (\<lambda>u q. map_sum id (\<lambda>r. r\<lparr>status_code := s\<rparr>) (server u q))
          json_body species_name limit year_range bbox
       = get_gbif_occurrences server json_body species_name limit year_range bbox"
    by (rule status_not_read)
  show "fault (run_query requests_get response_json widgets species_name limit year_range bbox)
        = Some e
      \<longleftrightarrow> species_name \<noteq> []
        \<and> (get_gbif_occurrences requests_get response_json species_name limit year_range bbox
              = Inl e
           \<or> (\<exists>df. get_gbif_occurrences requests_get response_json species_name limit
                       year_range bbox = Inr df
                  \<and> df \<noteq> [] \<and> render_tabs widgets species_name df = Some e))"
    by (auto simp: run_query_def split: sum.splits)
  show "Warning w
        \<in> set (shown (run_query requests_get response_json widgets species_name limit
                         year_range bbox))
      \<longleftrightarrow> species_name \<noteq> [] \<and> w = warning_text
        \<and> get_gbif_occurrences requests_get response_json species_name limit year_range bbox
            = Inr []"
    by (auto simp: run_query_def split: sum.splits)
  show "species_name \<noteq> []
        \<and> get_gbif_occurrences requests_get response_json species_name limit year_range bbox
            = Inr [] \<longrightarrow>
      run_query requests_get response_json widgets species_name limit year_range bbox
        = \<lparr>shown = [Warning warning_text], fault = None\<rparr>"
    by (simp add: run_query_def)
qed

theorem raised_faults_propagate_witness:
  "query_params ''Danaus plexippus'' 500 None None = Inr monarch_params
   \<and> unreachable_server url monarch_params = Inl RequestException
   \<and> get_gbif_occurrences unreachable_server json_body ''Danaus plexippus'' 500 None None
       = Inl RequestException
   \<and> fault (run_query unreachable_server json_body quiet_widgets ''Danaus plexippus'' 500
              None None) = Some RequestException
   \<and> garbled_server url monarch_params = Inr garbled_reply
   \<and> json_body garbled_reply = Inl JSONDecodeError
   \<and> get_gbif_occurrences garbled_server json_body ''Danaus plexippus'' 500 None None
       = Inl JSONDecodeError
   \<and> fault (run_query garbled_server json_body quiet_widgets ''Danaus plexippus'' 500
              None None) = Some JSONDecodeError
   \<and> get_gbif_occurrences (server_of [monarch_no_longitude]) json_body
        ''Danaus plexippus'' 500 None None = Inr []
   \<and> run_query (server_of [monarch_no_longitude]) json_body quiet_widgets
        ''Danaus plexippus'' 500 None None
       = \<lparr>shown = [Warning warning_text], fault = None\<rparr>
   \<and> get_gbif_occurrences (server_of [monarch_null_coordinates]) json_body
        ''Danaus plexippus'' 500 None None = Inr [monarch_null_row]
   \<and> render_tabs strict_widgets ''Danaus plexippus'' [monarch_null_row]
       = Some StreamlitAPIException
   \<and> fault (run_query (server_of [monarch_null_coordinates]) json_body strict_widgets
              ''Danaus plexippus'' 500 None None) = Some StreamlitAPIException"
proof -
  note p = sample_params
  have down: "unreachable_server url monarch_params = Inl RequestException"
    by (simp add: unreachable_server_def)
  have garbled: "garbled_server url monarch_params = Inr garbled_reply"
    "json_body garbled_reply = Inl JSONDecodeError"
    by (simp_all add: garbled_server_def garbled_reply_def)
  have tabs: "render_tabs strict_widgets ''Danaus plexippus'' [monarch_null_row]
                = Some StreamlitAPIException"
    by (simp add: render_tabs_def strict_widgets_def quiet_widgets_def monarch_null_row_def)
  have row: "[monarch_null_row] \<noteq> []"
    by simp
  note a = raised_faults_propagate
      [where species_name = "''Danaus plexippus''" and limit = 500 and year_range = None
         and bbox = None and p = monarch_params and requests_get = unreachable_server
         and response_json = json_body and e = RequestException and widgets = quiet_widgets]
  note b = raised_faults_propagate
      [where species_name = "''Danaus plexippus''" and limit = 500 and year_range = None
         and bbox = None and p = monarch_params and requests_get = garbled_server
         and response_json = json_body and e = JSONDecodeError and response = garbled_reply
         and widgets = quiet_widgets]
  note c = raised_faults_propagate
      [where species_name = "''Danaus plexippus''" and limit = 500 and year_range = None
         and bbox = None and requests_get = "server_of [monarch_no_longitude]"
         and response_json = json_body and rows = "[]" and widgets = quiet_widgets]
  note d = raised_faults_propagate
      [where species_name = "''Danaus plexippus''" and limit = 500 and year_range = None
         and bbox = None and requests_get = "server_of [monarch_null_coordinates]"
         and response_json = json_body and rows = "[monarch_null_row]"
         and e = StreamlitAPIException and widgets = strict_widgets]
  from a [THEN conjunct1] p down
  have a1: "get_gbif_occurrences unreachable_server json_body ''Danaus plexippus'' 500 None None
              = Inl RequestException"
    by simp
  with a [THEN conjunct2, THEN conjunct2, THEN conjunct2, THEN conjunct2, THEN conjunct1]
  have a2: "fault (run_query unreachable_server json_body quiet_widgets ''Danaus plexippus'' 500
              None None) = Some RequestException"
    by simp
  from b [THEN conjunct2, THEN conjunct1] p garbled
  have b1: "get_gbif_occurrences garbled_server json_body ''Danaus plexippus'' 500 None None
              = Inl JSONDecodeError"
    by simp
  with b [THEN conjunct2, THEN conjunct2, THEN conjunct2, THEN conjunct2, THEN conjunct1]
  have b2: "fault (run_query garbled_server json_body quiet_widgets ''Danaus plexippus'' 500
              None None) = Some JSONDecodeError"
    by simp
  have "query_params ''Danaus plexippus'' 500 None None = Inr monarch_params
      \<and> server_of [monarch_no_longitude] url monarch_params
          = Inr \<lparr>status_code = 200, json_body = Inr (body_of [monarch_no_longitude])\<rparr>
      \<and> json_body \<lparr>status_code = 200, json_body = Inr (body_of [monarch_no_longitude])\<rparr>
          = Inr (body_of [monarch_no_longitude])
      \<and> flatten_response (body_of [monarch_no_longitude]) = Inr []"
    by (simp add: p server_of_def sample_tables)
  with c [THEN conjunct2, THEN conjunct2, THEN conjunct1]
  have c1: "get_gbif_occurrences (server_of [monarch_no_longitude]) json_body
              ''Danaus plexippus'' 500 None None = Inr []"
    by blast
  with c [THEN conjunct2, THEN conjunct2, THEN conjunct2, THEN conjunct2, THEN conjunct2,
          THEN conjunct2]
  have c2: "run_query (server_of [monarch_no_longitude]) json_body quiet_widgets
              ''Danaus plexippus'' 500 None None
            = \<lparr>shown = [Warning warning_text], fault = None\<rparr>"
    by simp
  have "query_params ''Danaus plexippus'' 500 None None = Inr monarch_params
      \<and> server_of [monarch_null_coordinates] url monarch_params
          = Inr \<lparr>status_code = 200, json_body = Inr (body_of [monarch_null_coordinates])\<rparr>
      \<and> json_body \<lparr>status_code = 200, json_body = Inr (body_of [monarch_null_coordinates])\<rparr>
          = Inr (body_of [monarch_null_coordinates])
      \<and> flatten_response (body_of [monarch_null_coordinates]) = Inr [monarch_null_row]"
    by (simp add: p server_of_def sample_tables)
  with d [THEN conjunct2, THEN conjunct2, THEN conjunct1]
  have d1: "get_gbif_occurrences (server_of [monarch_null_coordinates]) json_body
              ''Danaus plexippus'' 500 None None = Inr [monarch_null_row]"
    by blast
  with d [THEN conjunct2, THEN conjunct2, THEN conjunct2, THEN conjunct2, THEN conjunct1]
    tabs row
  have d2: "fault (run_query (server_of [monarch_null_coordinates]) json_body strict_widgets
              ''Danaus plexippus'' 500 None None) = Some StreamlitAPIException"
    by blast
  from p down garbled a1 a2 b1 b2 c1 c2 d1 tabs d2 show ?thesis
    by simp
qed

text \<open>
  Claim C7 as written fails: the server answers with status 500 and a JSON object, the
  HTTP call has failed, and the function returns a table, which is empty, so that the
  script shows the warning and ends without a fault.
\<close>

theorem error_status_gives_table:
  "error_status_server url monarch_params = Inr error_reply
   \<and> status_code error_reply = 500
   \<and> get_gbif_occurrences error_status_server json_body ''Danaus plexippus'' 500 None None
       = Inr []
   \<and> run_query error_status_server json_body quiet_widgets ''Danaus plexippus'' 500 None None
       = \<lparr>shown = [Warning warning_text], fault = None\<rparr>"
proof -
  have t: "get_gbif_occurrences error_status_server json_body ''Danaus plexippus'' 500
             None None = Inr []"
    by (simp add: get_gbif_occurrences_def sample_params error_status_server_def
          error_reply_def sample_tables)
  then show ?thesis
    by (simp add: run_query_def error_status_server_def error_reply_def)
qed

end
